theory Spec2Isabelle
  imports Complex_Main "HOL-Library.Sublist"
begin

section \<open>Python values, dictionaries and exceptions\<close>

text \<open>
  The supplier dictionaries of \<^verbatim>\<open>knowledge_base.py\<close> and \<^verbatim>\<open>hybrid_search.py\<close> are
  JSON-like Python dicts. A value is \<^verbatim>\<open>None\<close>, a string, an int, a float or a nested
  dict (the \<^verbatim>\<open>contact\<close> sub-record). Strings are byte strings holding the UTF-8
  encoding of the Python text. A float is the real number it denotes; the operations
  that round (single-precision arithmetic of numpy and faiss, \<^verbatim>\<open>round\<close>, the format
  field \<^verbatim>\<open>:.2f\<close>) are not computed here but taken from the runtime, see the record
  \<open>world\<close> below.
\<close>

datatype pyval =
    PNone
  | PStr string
  | PInt int
  | PFloat real
  | PDict "(string \<times> pyval) list"

type_synonym pydict = "(string \<times> pyval) list"

type_synonym vector = "real list"

datatype py_error =
    AttributeError
  | TypeError
  | KeyError
  | IndexError
  | ValueError
  | AssertionError
  | EmbeddingError

text \<open>\<^verbatim>\<open>d.get(key, default)\<close>.\<close>

definition dict_get :: "pydict \<Rightarrow> string \<Rightarrow> pyval \<Rightarrow> pyval" where
  "dict_get d k dflt = (case map_of d k of None \<Rightarrow> dflt | Some v \<Rightarrow> v)"

text \<open>\<^verbatim>\<open>d[key]\<close>: a missing key raises.\<close>

definition dict_item :: "pydict \<Rightarrow> string \<Rightarrow> py_error + pyval" where
  "dict_item d k = (case map_of d k of None \<Rightarrow> Inl KeyError | Some v \<Rightarrow> Inr v)"

text \<open>\<^verbatim>\<open>d[key] = v\<close>: an existing key keeps its position, a new one goes last.\<close>

fun dict_set :: "pydict \<Rightarrow> string \<Rightarrow> pyval \<Rightarrow> pydict" where
  "dict_set [] k v = [(k, v)]"
| "dict_set ((k', v') # d) k v = (if k' = k then (k, v) # d else (k', v') # dict_set d k v)"

text \<open>Truth value of an object in \<^verbatim>\<open>if x:\<close>.\<close>

fun py_truthy :: "pyval \<Rightarrow> bool" where
  "py_truthy PNone = False"
| "py_truthy (PStr s) = (s \<noteq> [])"
| "py_truthy (PInt i) = (i \<noteq> 0)"
| "py_truthy (PFloat x) = (x \<noteq> 0)"
| "py_truthy (PDict d) = (d \<noteq> [])"

text \<open>\<^verbatim>\<open>x[:n]\<close> inside a print: only a string can be sliced, anything else raises.\<close>

fun py_slice_str :: "pyval \<Rightarrow> nat \<Rightarrow> py_error + string" where
  "py_slice_str (PStr s) n = Inr (take n s)"
| "py_slice_str _ n = Inl TypeError"

text \<open>Case folding of the ASCII letters, the bytes of a multi-byte character left as
  they are. It is Python's \<^verbatim>\<open>str.lower\<close> on ASCII text only, and is used by the
  concrete runtimes of the examples, whose titles are ASCII.\<close>

definition lower_char :: "char \<Rightarrow> char" where
  "lower_char c = (let n = (of_char c :: nat) in if 65 \<le> n \<and> n \<le> 90 then char_of (n + 32) else c)"

text \<open>Decimal digits of an int, as \<^verbatim>\<open>str\<close> prints them.\<close>

definition digit_char :: "nat \<Rightarrow> char" where
  "digit_char n = char_of (48 + n)"

fun show_nat :: "nat \<Rightarrow> string" where
  "show_nat n = (if n < 10 then [digit_char n] else show_nat (n div 10) @ [digit_char (n mod 10)])"

declare show_nat.simps [simp del]

definition show_int :: "int \<Rightarrow> string" where
  "show_int i = (if i < 0 then CHR ''-'' # show_nat (nat (- i)) else show_nat (nat i))"

text \<open>Rounding of an exact decimal to the nearest multiple of one thousandth, ties to
  the even one: Python's \<^verbatim>\<open>round(x, 3)\<close> where the double \<open>x\<close> is the decimal it
  prints. Used by the concrete runtimes of the examples.\<close>

definition round_half_even :: "real \<Rightarrow> int" where
  "round_half_even y =
     (let f = \<lfloor>y\<rfloor>; r = y - of_int f
      in if r < 1 / 2 then f else if 1 / 2 < r then f + 1 else if even f then f else f + 1)"

definition py_round3 :: "real \<Rightarrow> real" where
  "py_round3 x = of_int (round_half_even (x * 1000)) / 1000"

section \<open>The world outside the process\<close>

text \<open>
  The collaborators are parameters of every operation: the embedding provider
  (\<^verbatim>\<open>GoogleGenerativeAIEmbeddings.embed_query\<close>), the answer of the web search tool,
  the clock, the outcome of the next write of the index and metadata files, and
  Python's \<^verbatim>\<open>repr\<close> of floats and dicts (used only when an f-string interpolates such
  a value).

  So are the operations of the Python runtime and of numpy and faiss whose results
  depend on Unicode tables or on binary floating point. Nothing is assumed of them, so
  every theorem below holds for whatever they compute:
  \<^item> \<open>str_lower\<close> is \<^verbatim>\<open>str.lower\<close>;
  \<^item> \<open>format_2f\<close> is the format field \<^verbatim>\<open>:.2f\<close> of a float, \<open>round_3\<close> is
    \<^verbatim>\<open>round(float(x), 3)\<close>;
  \<^item> \<open>l2_distance\<close> is the squared distance faiss computes in single precision
    between a query and a stored vector (both cast by \<^verbatim>\<open>astype('float32')\<close>);
  \<^item> \<open>f32\<close> rounds the result of a single-precision operation, \<open>np_exp\<close> is
    \<^verbatim>\<open>np.exp\<close> on a single-precision number;
  \<^item> \<open>promote\<close> is what numpy makes of the Python float \<^verbatim>\<open>min_similarity\<close> when it
    compares a single-precision number with it (rounded to single precision under the
    promotion rules of NumPy 2, unchanged before).
\<close>

datatype write_outcome = WriteOk | IndexWriteFails | MetadataWriteFails

record world =
  embed_query :: "string \<Rightarrow> py_error + vector"
  google_tool :: "pydict \<Rightarrow> py_error + pydict list"
  today :: string
  disk_write :: write_outcome
  repr_other :: "pyval \<Rightarrow> string"
  str_lower :: "string \<Rightarrow> string"
  format_2f :: "real \<Rightarrow> string"
  round_3 :: "real \<Rightarrow> real"
  l2_distance :: "vector \<Rightarrow> vector \<Rightarrow> real"
  f32 :: "real \<Rightarrow> real"
  np_exp :: "real \<Rightarrow> real"
  promote :: "real \<Rightarrow> real"

text \<open>\<^verbatim>\<open>str(x)\<close>, as an f-string field \<^verbatim>\<open>{x}\<close> applies it.\<close>

definition py_str :: "world \<Rightarrow> pyval \<Rightarrow> string" where
  "py_str w v =
     (case v of
        PStr s \<Rightarrow> s
      | PNone \<Rightarrow> ''None''
      | PInt i \<Rightarrow> show_int i
      | _ \<Rightarrow> repr_other w v)"

text \<open>\<^verbatim>\<open>x.lower()\<close>: only strings have the method.\<close>

fun py_lower :: "world \<Rightarrow> pyval \<Rightarrow> py_error + string" where
  "py_lower w (PStr s) = Inr (str_lower w s)"
| "py_lower w _ = Inl AttributeError"

section \<open>String constants of the source\<close>

definition label_company :: string where
  "label_company = [CHR 0xE5, CHR 0x85, CHR 0xAC, CHR 0xE5, CHR 0x8F, CHR 0xB8, CHR 0xE5, CHR 0x90,
     CHR 0x8D, CHR 0xE7, CHR 0xA7, CHR 0xB0, CHR '':'', CHR '' '']"

definition label_category :: string where
  "label_category = [CHR 0xE7, CHR 0xB1, CHR 0xBB, CHR 0xE5, CHR 0x88, CHR 0xAB, CHR '':'', CHR '' '']"

definition label_type :: string where
  "label_type = [CHR 0xE7, CHR 0xB1, CHR 0xBB, CHR 0xE5, CHR 0x9E, CHR 0x8B, CHR '':'', CHR '' '']"

definition label_snippet :: string where
  "label_snippet = [CHR 0xE6, CHR 0x8F, CHR 0x8F, CHR 0xE8, CHR 0xBF, CHR 0xB0, CHR '':'', CHR '' '']"

definition label_reason :: string where
  "label_reason = [CHR 0xE8, CHR 0xAF, CHR 0x84, CHR 0xE4, CHR 0xBB, CHR 0xB7, CHR '':'', CHR '' '']"

definition src_google :: string where
  "src_google = [CHR ''G'', CHR ''o'', CHR ''o'', CHR ''g'', CHR ''l'', CHR ''e'',
     CHR 0xE6, CHR 0x90, CHR 0x9C, CHR 0xE7, CHR 0xB4, CHR 0xA2]"

definition src_local :: string where
  "src_local = [CHR 0xE6, CHR 0x9C, CHR 0xAC, CHR 0xE5, CHR 0x9C, CHR 0xB0, CHR 0xE7, CHR 0x9F,
     CHR 0xA5, CHR 0xE8, CHR 0xAF, CHR 0x86, CHR 0xE5, CHR 0xBA, CHR 0x93]"

definition status_uncontacted :: string where
  "status_uncontacted = [CHR 0xE6, CHR 0x9C, CHR 0xAA, CHR 0xE8, CHR 0x81, CHR 0x94, CHR 0xE7,
     CHR 0xB3, CHR 0xBB]"

definition default_category :: string where
  "default_category = [CHR 0xE7, CHR 0x94, CHR 0xB5, CHR 0xE5, CHR 0xAD, CHR 0x90, CHR 0xE4,
     CHR 0xBA, CHR 0xA7, CHR 0xE5, CHR 0x93, CHR 0x81]"

section \<open>The knowledge base (\<^verbatim>\<open>SupplierKnowledgeBase\<close>)\<close>

text \<open>
  \<^verbatim>\<open>faiss.IndexFlatL2\<close>: a dimension and the stored vectors in insertion order. The
  knowledge base holds the index and the metadata list in memory, and the two files
  \<^verbatim>\<open>faiss.index\<close> and \<^verbatim>\<open>metadata.json\<close> on disk (absent until first written).
\<close>

record faiss_index =
  dim :: nat
  vecs :: "vector list"

record kb =
  index :: faiss_index
  suppliers :: "pydict list"
  disk_index :: "faiss_index option"
  disk_metadata :: "pydict list option"

text \<open>\<^verbatim>\<open>index.add(np.array(rows).astype('float32'))\<close>: rows of unequal length do not
  form an array, and faiss asserts that the row length is the index dimension.\<close>

definition index_add :: "faiss_index \<Rightarrow> vector list \<Rightarrow> py_error + faiss_index" where
  "index_add ix rows =
     (if list_ex (\<lambda>r. length r \<noteq> length (hd rows)) rows then Inl ValueError
      else if list_ex (\<lambda>r. length r \<noteq> dim ix) rows then Inl AssertionError
      else Inr (ix\<lparr>vecs := vecs ix @ rows\<rparr>))"

text \<open>\<^verbatim>\<open>_load_or_create_index\<close>: both files present, or a fresh index of dimension 768.\<close>

definition load_or_create_index :: "kb \<Rightarrow> kb" where
  "load_or_create_index st =
     (case (disk_index st, disk_metadata st) of
        (Some ix, Some ms) \<Rightarrow> st\<lparr>index := ix, suppliers := ms\<rparr>
      | _ \<Rightarrow> st\<lparr>index := \<lparr>dim = 768, vecs = []\<rparr>, suppliers := []\<rparr>)"

text \<open>\<^verbatim>\<open>_save_index\<close>: the index file is written first, then the metadata file; an
  exception of either write is caught and printed, and the method returns normally.\<close>

definition save_index :: "world \<Rightarrow> kb \<Rightarrow> kb" where
  "save_index w st =
     (case disk_write w of
        IndexWriteFails \<Rightarrow> st
      | MetadataWriteFails \<Rightarrow> st\<lparr>disk_index := Some (index st)\<rparr>
      | WriteOk \<Rightarrow> st\<lparr>disk_index := Some (index st), disk_metadata := Some (suppliers st)\<rparr>)"

text \<open>\<^verbatim>\<open>_build_document_content\<close>.\<close>

definition join_lines :: "string list \<Rightarrow> string" where
  "join_lines ps = (case ps of [] \<Rightarrow> [] | p # qs \<Rightarrow> p @ concat (map (\<lambda>q. CHR 0x0A # q) qs))"

definition build_document_content :: "world \<Rightarrow> pydict \<Rightarrow> string" where
  "build_document_content w supplier =
     (let company_name = dict_get supplier ''title'' (PStr '''');
          category = dict_get supplier ''category'' (PStr '''');
          snippet = dict_get supplier ''snippet'' (PStr '''');
          reason = dict_get supplier ''reason'' (PStr '''');
          match_type = dict_get supplier ''match_type'' (PStr '''');
          content_parts =
            [label_company @ py_str w company_name,
             label_category @ py_str w category,
             label_type @ py_str w match_type,
             label_snippet @ py_str w snippet,
             label_reason @ py_str w reason]
      in join_lines (filter (\<lambda>p. p \<noteq> []) content_parts))"

text \<open>\<^verbatim>\<open>_build_metadata\<close>: \<^verbatim>\<open>contact.get\<close> raises when the supplier's
  \<^verbatim>\<open>contact\<close> entry is not a dict.\<close>

definition build_metadata :: "world \<Rightarrow> pydict \<Rightarrow> py_error + pydict" where
  "build_metadata w supplier =
     (case dict_get supplier ''contact'' (PDict []) of
        PDict contact \<Rightarrow>
          Inr [(''company_name'', dict_get supplier ''title'' (PStr ''Unknown'')),
               (''category'', dict_get supplier ''category'' (PStr default_category)),
               (''website'', dict_get supplier ''link'' (PStr '''')),
               (''match_type'', dict_get supplier ''match_type'' (PStr '''')),
               (''supplier_score'', dict_get supplier ''score'' (PInt 0)),
               (''contact_person'', dict_get contact ''name'' (PStr '''')),
               (''email'', dict_get contact ''email'' (PStr '''')),
               (''phone'', dict_get contact ''phone'' (PStr '''')),
               (''linkedin'', dict_get contact ''linkedin'' (PStr '''')),
               (''cooperation_status'', PStr status_uncontacted),
               (''add_date'', PStr (today w)),
               (''source'', dict_get supplier ''source'' (PStr src_google))]
      | _ \<Rightarrow> Inl AttributeError)"

text \<open>
  \<^verbatim>\<open>add_supplier\<close>. The whole body is inside \<^verbatim>\<open>try\<close>; every exception ends in
  \<^verbatim>\<open>return False\<close> with the state as the statements before it left it. The order is
  the source's: embed, \<^verbatim>\<open>index.add\<close>, \<^verbatim>\<open>_build_metadata\<close>, append, print, save.
\<close>

definition add_supplier :: "world \<Rightarrow> kb \<Rightarrow> pydict \<Rightarrow> bool \<times> kb" where
  "add_supplier w st supplier =
     (let content = build_document_content w supplier in
      case embed_query w content of
        Inl e \<Rightarrow> (False, st)
      | Inr embedding \<Rightarrow>
          (case index_add (index st) [embedding] of
             Inl e \<Rightarrow> (False, st)
           | Inr ix \<Rightarrow>
               (let st1 = st\<lparr>index := ix\<rparr> in
                case build_metadata w supplier of
                  Inl e \<Rightarrow> (False, st1)
                | Inr metadata \<Rightarrow>
                    (let st2 = st1\<lparr>suppliers := suppliers st1 @ [metadata]\<rparr> in
                     case py_slice_str (dict_get supplier ''title'' (PStr ''Unknown'')) 50 of
                       Inl e \<Rightarrow> (False, st2)
                     | Inr shown \<Rightarrow> (True, save_index w st2)))))"

text \<open>
  \<^verbatim>\<open>add_suppliers_batch\<close>. The loop collects embeddings and metadata in two pending
  lists; each item has its own \<^verbatim>\<open>try\<close>, so a failing item keeps what it appended
  before the exception. The final \<^verbatim>\<open>index.add\<close> is outside any \<^verbatim>\<open>try\<close>.
\<close>

fun batch_loop ::
  "world \<Rightarrow> pydict list \<Rightarrow> nat \<times> vector list \<times> pydict list \<Rightarrow> nat \<times> vector list \<times> pydict list"
where
  "batch_loop w [] acc = acc"
| "batch_loop w (supplier # rest) (success_count, embeddings_to_add, metadata_to_add) =
     (case embed_query w (build_document_content w supplier) of
        Inl e \<Rightarrow> batch_loop w rest (success_count, embeddings_to_add, metadata_to_add)
      | Inr embedding \<Rightarrow>
          (case build_metadata w supplier of
             Inl e \<Rightarrow> batch_loop w rest (success_count, embeddings_to_add @ [embedding], metadata_to_add)
           | Inr metadata \<Rightarrow>
               (case py_slice_str (dict_get supplier ''title'' (PStr ''Unknown'')) 30 of
                  Inl e \<Rightarrow>
                    batch_loop w rest
                      (success_count, embeddings_to_add @ [embedding], metadata_to_add @ [metadata])
                | Inr shown \<Rightarrow>
                    batch_loop w rest
                      (success_count + 1, embeddings_to_add @ [embedding], metadata_to_add @ [metadata]))))"

definition add_suppliers_batch :: "world \<Rightarrow> kb \<Rightarrow> pydict list \<Rightarrow> (py_error + nat) \<times> kb" where
  "add_suppliers_batch w st sups =
     (case batch_loop w sups (0, [], []) of
        (success_count, embeddings_to_add, metadata_to_add) \<Rightarrow>
          if embeddings_to_add \<noteq> [] then
            (case index_add (index st) embeddings_to_add of
               Inl e \<Rightarrow> (Inl e, st)
             | Inr ix \<Rightarrow>
                 (Inr success_count,
                  save_index w (st\<lparr>index := ix, suppliers := suppliers st @ metadata_to_add\<rparr>)))
          else (Inr success_count, st))"

text \<open>
  \<^verbatim>\<open>index.search(query_array, k)\<close> of a flat L2 index: the distance of the query to
  every stored vector, the \<open>k\<close> smallest in ascending order, each with the ordinal of
  its vector. The wrapper asserts the query dimension and \<open>k > 0\<close>; when the index
  holds fewer than \<open>k\<close> vectors the result is padded with label \<open>-1\<close> at the largest
  single-precision distance. The exact squared Euclidean distance \<open>l2sq\<close> is the
  \<open>l2_distance\<close> of the concrete runtimes of the examples.
\<close>

definition l2sq :: "vector \<Rightarrow> vector \<Rightarrow> real" where
  "l2sq q v = sum_list (map (\<lambda>(a, b). (a - b)\<^sup>2) (zip q v))"

definition flt_max :: real where
  "flt_max = 340282346638528859811704183484516925440"

definition index_search ::
  "world \<Rightarrow> faiss_index \<Rightarrow> vector \<Rightarrow> int \<Rightarrow> py_error + (real \<times> int) list" where
  "index_search w ix q k =
     (if length q \<noteq> dim ix then Inl AssertionError
      else if k \<le> 0 then Inl AssertionError
      else
        (let n = length (vecs ix);
             scored = zip (map (l2_distance w q) (vecs ix)) (map int [0..<n])
         in Inr (take (nat k) (sort_key fst scored) @ replicate (nat k - n) (flt_max, - 1))))"

text \<open>\<^verbatim>\<open>xs[i]\<close>: an index below zero is taken from the end of the list.\<close>

definition py_list_item :: "'a list \<Rightarrow> int \<Rightarrow> py_error + 'a" where
  "py_list_item xs i =
     (if 0 \<le> i \<and> i < int (length xs) then Inr (xs ! nat i)
      else if i < 0 \<and> - int (length xs) \<le> i then Inr (xs ! nat (int (length xs) + i))
      else Inl IndexError)"

text \<open>\<^verbatim>\<open>xs[:k]\<close> with Python's negative bound.\<close>

definition py_take :: "int \<Rightarrow> 'a list \<Rightarrow> 'a list" where
  "py_take k xs = (if 0 \<le> k then take (nat k) xs else take (nat (int (length xs) + k)) xs)"

text \<open>The loop of \<^verbatim>\<open>search_suppliers\<close> over the (distance, ordinal) pairs:
  \<^verbatim>\<open>np.exp(-distance / 10)\<close> in single precision, the two rounded annotations of the
  copy, and the comparison \<^verbatim>\<open>similarity >= min_similarity\<close> of the unrounded
  similarity.\<close>

definition similarity_of :: "world \<Rightarrow> real \<Rightarrow> real" where
  "similarity_of w distance = np_exp w (f32 w (- distance / 10))"

definition annotate :: "world \<Rightarrow> pydict \<Rightarrow> real \<Rightarrow> pydict" where
  "annotate w stored distance =
     dict_set (dict_set stored ''similarity_score'' (PFloat (round_3 w (similarity_of w distance))))
       ''distance'' (PFloat (round_3 w distance))"

fun collect_hits ::
  "world \<Rightarrow> pydict list \<Rightarrow> real \<Rightarrow> (real \<times> int) list \<Rightarrow> py_error + pydict list" where
  "collect_hits w sups min_similarity [] = Inr []"
| "collect_hits w sups min_similarity ((distance, idx) # rest) =
     (if idx < int (length sups) then
        (case py_list_item sups idx of
           Inl e \<Rightarrow> Inl e
         | Inr stored \<Rightarrow>
             (case collect_hits w sups min_similarity rest of
                Inl e \<Rightarrow> Inl e
              | Inr results \<Rightarrow>
                  Inr (if promote w min_similarity \<le> similarity_of w distance
                       then annotate w stored distance # results else results)))
      else collect_hits w sups min_similarity rest)"

text \<open>The body of \<^verbatim>\<open>search_suppliers\<close> inside its \<^verbatim>\<open>try\<close>, and the method itself,
  whose \<^verbatim>\<open>except Exception\<close> prints the error and returns the empty list.\<close>

definition search_suppliers_try ::
  "world \<Rightarrow> kb \<Rightarrow> string \<Rightarrow> int \<Rightarrow> real \<Rightarrow> py_error + pydict list" where
  "search_suppliers_try w st query k min_similarity =
     (if length (suppliers st) = 0 then Inr []
      else
        (case embed_query w query of
           Inl e \<Rightarrow> Inl e
         | Inr query_embedding \<Rightarrow>
             (case index_search w (index st) query_embedding (min k (int (length (suppliers st)))) of
                Inl e \<Rightarrow> Inl e
              | Inr pairs \<Rightarrow> collect_hits w (suppliers st) min_similarity pairs)))"

definition search_suppliers :: "world \<Rightarrow> kb \<Rightarrow> string \<Rightarrow> int \<Rightarrow> real \<Rightarrow> pydict list" where
  "search_suppliers w st query k min_similarity =
     (case search_suppliers_try w st query k min_similarity of
        Inl e \<Rightarrow> []
      | Inr results \<Rightarrow> results)"

section \<open>The hybrid search engine (\<^verbatim>\<open>HybridSearchEngine\<close>)\<close>

definition key_product_name :: string where
  "key_product_name = [CHR 0xE4, CHR 0xBA, CHR 0xA7, CHR 0xE5, CHR 0x93, CHR 0x81, CHR 0xE5,
     CHR 0x90, CHR 0x8D, CHR 0xE7, CHR 0xA7, CHR 0xB0]"

definition key_product_category :: string where
  "key_product_category = [CHR 0xE4, CHR 0xBA, CHR 0xA7, CHR 0xE5, CHR 0x93, CHR 0x81, CHR 0xE7,
     CHR 0xB1, CHR 0xBB, CHR 0xE5, CHR 0x88, CHR 0xAB]"

definition key_core_specs :: string where
  "key_core_specs = [CHR 0xE6, CHR 0xA0, CHR 0xB8, CHR 0xE5, CHR 0xBF, CHR 0x83, CHR 0xE8,
     CHR 0xA7, CHR 0x84, CHR 0xE6, CHR 0xA0, CHR 0xBC]"

definition default_query :: string where
  "default_query = [CHR 0xE5, CHR 0x88, CHR 0xB6, CHR 0xE9, CHR 0x80, CHR 0xA0, CHR 0xE5, CHR 0x95,
     CHR 0x86, CHR '' '', CHR 0xE4, CHR 0xBE, CHR 0x9B, CHR 0xE5, CHR 0xBA, CHR 0x94, CHR 0xE5,
     CHR 0x95, CHR 0x86]"

definition reason_prefix :: string where
  "reason_prefix = [CHR 0xE6, CHR 0x9C, CHR 0xAC, CHR 0xE5, CHR 0x9C, CHR 0xB0, CHR 0xE7, CHR 0x9F,
     CHR 0xA5, CHR 0xE8, CHR 0xAF, CHR 0x86, CHR 0xE5, CHR 0xBA, CHR 0x93, CHR 0xE5, CHR 0x8C,
     CHR 0xB9, CHR 0xE9, CHR 0x85, CHR 0x8D, CHR 0xEF, CHR 0xBC, CHR 0x88, CHR 0xE7, CHR 0x9B,
     CHR 0xB8, CHR 0xE4, CHR 0xBC, CHR 0xBC, CHR 0xE5, CHR 0xBA, CHR 0xA6, CHR '':'', CHR '' '']"

definition reason_suffix :: string where
  "reason_suffix = [CHR 0xEF, CHR 0xBC, CHR 0x89]"

text \<open>\<^verbatim>\<open>" ".join(parts)\<close>: every part must be a string.\<close>

fun join_spaces :: "pyval list \<Rightarrow> py_error + string" where
  "join_spaces [] = Inr []"
| "join_spaces [PStr s] = Inr s"
| "join_spaces (PStr s # rest) =
     (case join_spaces rest of Inl e \<Rightarrow> Inl e | Inr t \<Rightarrow> Inr (s @ CHR '' '' # t))"
| "join_spaces (_ # rest) = Inl TypeError"

text \<open>\<^verbatim>\<open>_build_search_query\<close>.\<close>

definition build_search_query :: "pydict \<Rightarrow> py_error + string" where
  "build_search_query product_info =
     (let product_name = dict_get product_info key_product_name (PStr '''');
          category = dict_get product_info key_product_category (PStr '''');
          specs = dict_get product_info key_core_specs (PStr '''');
          query_parts = filter py_truthy [product_name, category, specs]
      in case join_spaces query_parts of
           Inl e \<Rightarrow> Inl e
         | Inr query \<Rightarrow> Inr (if query \<noteq> [] then query else default_query))"

text \<open>Two decimals of an exact decimal, ties to even: the format field \<^verbatim>\<open>:.2f\<close>
  where the double is the decimal it prints. Used by the concrete runtimes of the
  examples.\<close>

definition fixed2 :: "real \<Rightarrow> string" where
  "fixed2 x =
     (let n = nat \<bar>round_half_even (x * 100)\<bar>
      in (if x < 0 then ''-'' else '''') @ show_nat (n div 100) @ ''.'' @
         [digit_char (n mod 100 div 10), digit_char (n mod 10)])"

text \<open>The format field \<^verbatim>\<open>{x:.2f}\<close>: two decimals of a number; \<^verbatim>\<open>None\<close>, a string or
  a dict raise.\<close>

fun fmt_2f :: "world \<Rightarrow> pyval \<Rightarrow> py_error + string" where
  "fmt_2f w (PFloat x) = Inr (format_2f w x)"
| "fmt_2f w (PInt i) = Inr (format_2f w (of_int i))"
| "fmt_2f w (PStr s) = Inl ValueError"
| "fmt_2f w _ = Inl TypeError"

text \<open>\<^verbatim>\<open>x >= min_similarity\<close> for a dict value \<open>x\<close>: only numbers compare with a
  float.\<close>

fun py_ge :: "pyval \<Rightarrow> real \<Rightarrow> py_error + bool" where
  "py_ge (PFloat x) y = Inr (y \<le> x)"
| "py_ge (PInt i) y = Inr (y \<le> of_int i)"
| "py_ge _ y = Inl TypeError"

fun filter_similar :: "real \<Rightarrow> pydict list \<Rightarrow> py_error + pydict list" where
  "filter_similar min_similarity [] = Inr []"
| "filter_similar min_similarity (r # rs) =
     (case py_ge (dict_get r ''similarity_score'' (PInt 0)) min_similarity of
        Inl e \<Rightarrow> Inl e
      | Inr keep \<Rightarrow>
          (case filter_similar min_similarity rs of
             Inl e \<Rightarrow> Inl e
           | Inr kept \<Rightarrow> Inr (if keep then r # kept else kept)))"

text \<open>The two prints per shown local match: they subscript the record and slice and
  format what they find, so they raise on a record that lacks a key or holds a value of
  another type.\<close>

definition print_local_match :: "world \<Rightarrow> pydict \<Rightarrow> py_error + unit" where
  "print_local_match w supplier =
     (case dict_item supplier ''company_name'' of
        Inl e \<Rightarrow> Inl e
      | Inr name \<Rightarrow>
          (case py_slice_str name 40 of
             Inl e \<Rightarrow> Inl e
           | Inr shown \<Rightarrow>
               (case dict_item supplier ''similarity_score'' of
                  Inl e \<Rightarrow> Inl e
                | Inr sim \<Rightarrow>
                    (case fmt_2f w sim of
                       Inl e \<Rightarrow> Inl e
                     | Inr txt \<Rightarrow>
                         (case dict_item supplier ''cooperation_status'' of
                            Inl e \<Rightarrow> Inl e
                          | Inr status \<Rightarrow> Inr ())))))"

fun print_local_matches :: "world \<Rightarrow> pydict list \<Rightarrow> py_error + unit" where
  "print_local_matches w [] = Inr ()"
| "print_local_matches w (supplier # rest) =
     (case print_local_match w supplier of Inl e \<Rightarrow> Inl e | Inr u \<Rightarrow> print_local_matches w rest)"

text \<open>\<^verbatim>\<open>_search_local\<close>. The call is \<^verbatim>\<open>search_suppliers(query, k=k)\<close>: the third
  argument is not passed, so the method runs with its default \<^verbatim>\<open>min_similarity=0.5\<close>;
  the caller's threshold is applied afterwards to the rounded \<^verbatim>\<open>similarity_score\<close>.\<close>

definition search_local :: "world \<Rightarrow> kb \<Rightarrow> pydict \<Rightarrow> int \<Rightarrow> real \<Rightarrow> py_error + pydict list" where
  "search_local w st product_info k min_similarity =
     (case build_search_query product_info of
        Inl e \<Rightarrow> Inl e
      | Inr query \<Rightarrow>
          (let results = search_suppliers w st query k (1 / 2) in
           case filter_similar min_similarity results of
             Inl e \<Rightarrow> Inl e
           | Inr filtered_results \<Rightarrow>
               (case print_local_matches w (take 3 filtered_results) of
                  Inl e \<Rightarrow> Inl e
                | Inr u \<Rightarrow> Inr filtered_results)))"

text \<open>
  The call \<^verbatim>\<open>create_google_search_tool(product_info)\<close> is an effect on the world
  outside: beside the tool's answer, the call itself is recorded, appended to the log of
  the calls made so far. The log changes here and nowhere else.
\<close>

definition create_google_search_tool ::
  "world \<Rightarrow> pydict \<Rightarrow> pydict list \<Rightarrow> (py_error + pydict list) \<times> pydict list" where
  "create_google_search_tool w product_info calls =
     (google_tool w product_info, calls @ [product_info])"

text \<open>\<^verbatim>\<open>_search_google\<close>: the tool is called, every result is tagged, then the first
  \<open>k\<close> are returned.\<close>

definition tag_google :: "pydict \<Rightarrow> pydict" where
  "tag_google result = dict_set (dict_set result ''source'' (PStr src_google)) ''similarity_score'' PNone"

definition search_google ::
  "world \<Rightarrow> pydict \<Rightarrow> int \<Rightarrow> pydict list \<Rightarrow> (py_error + pydict list) \<times> pydict list" where
  "search_google w product_info k calls =
     (case create_google_search_tool w product_info calls of
        (Inl e, calls') \<Rightarrow> (Inl e, calls')
      | (Inr google_results, calls') \<Rightarrow> (Inr (py_take k (map tag_google google_results)), calls'))"

text \<open>\<^verbatim>\<open>_merge_results\<close>: the candidate built from a local record, the first loop over
  the local results, the set of lower-cased titles, the second loop over the web
  results with its \<^verbatim>\<open>continue\<close> (after a print that slices \<^verbatim>\<open>supplier.get('title')\<close>)
  and \<^verbatim>\<open>break\<close>, and the final slice.\<close>

definition local_candidate :: "world \<Rightarrow> pydict \<Rightarrow> py_error + pydict" where
  "local_candidate w supplier =
     (case fmt_2f w (dict_get supplier ''similarity_score'' (PInt 0)) of
        Inl e \<Rightarrow> Inl e
      | Inr txt \<Rightarrow>
          Inr [(''title'', dict_get supplier ''company_name'' PNone),
               (''link'', dict_get supplier ''website'' PNone),
               (''match_type'', dict_get supplier ''match_type'' PNone),
               (''score'', dict_get supplier ''score'' (PInt 0)),
               (''reason'', PStr (reason_prefix @ txt @ reason_suffix)),
               (''contact'',
                  PDict [(''name'', dict_get supplier ''contact_person'' (PStr '''')),
                         (''email'', dict_get supplier ''email'' (PStr '''')),
                         (''phone'', dict_get supplier ''phone'' (PStr ''''))]),
               (''source'', PStr src_local),
               (''cooperation_status'', dict_get supplier ''cooperation_status'' PNone),
               (''similarity_score'', dict_get supplier ''similarity_score'' PNone)])"

fun local_candidates :: "world \<Rightarrow> pydict list \<Rightarrow> py_error + pydict list" where
  "local_candidates w [] = Inr []"
| "local_candidates w (supplier # rest) =
     (case local_candidate w supplier of
        Inl e \<Rightarrow> Inl e
      | Inr c \<Rightarrow> (case local_candidates w rest of Inl e \<Rightarrow> Inl e | Inr cs \<Rightarrow> Inr (c # cs)))"

fun lower_titles :: "world \<Rightarrow> pydict list \<Rightarrow> py_error + string set" where
  "lower_titles w [] = Inr {}"
| "lower_titles w (r # rs) =
     (case dict_item r ''title'' of
        Inl e \<Rightarrow> Inl e
      | Inr t \<Rightarrow>
          (case py_lower w t of
             Inl e \<Rightarrow> Inl e
           | Inr name \<Rightarrow>
               (case lower_titles w rs of Inl e \<Rightarrow> Inl e | Inr names \<Rightarrow> Inr (insert name names))))"

fun merge_google ::
  "world \<Rightarrow> pydict list \<Rightarrow> string set \<Rightarrow> pydict list \<Rightarrow> int \<Rightarrow> py_error + pydict list" where
  "merge_google w merged existing_companies [] target_count = Inr merged"
| "merge_google w merged existing_companies (supplier # rest) target_count =
     (case py_lower w (dict_get supplier ''title'' (PStr '''')) of
        Inl e \<Rightarrow> Inl e
      | Inr company_name \<Rightarrow>
          if company_name \<in> existing_companies
          then (case py_slice_str (dict_get supplier ''title'' PNone) 30 of
                  Inl e \<Rightarrow> Inl e
                | Inr shown \<Rightarrow> merge_google w merged existing_companies rest target_count)
          else if target_count \<le> int (length (merged @ [supplier]))
          then Inr (merged @ [supplier])
          else merge_google w (merged @ [supplier]) (insert company_name existing_companies) rest
                 target_count)"

definition merge_results ::
  "world \<Rightarrow> pydict list \<Rightarrow> pydict list \<Rightarrow> int \<Rightarrow> py_error + pydict list" where
  "merge_results w local_results google_results target_count =
     (case local_candidates w local_results of
        Inl e \<Rightarrow> Inl e
      | Inr merged \<Rightarrow>
          (case lower_titles w merged of
             Inl e \<Rightarrow> Inl e
           | Inr existing_companies \<Rightarrow>
               (case merge_google w merged existing_companies google_results target_count of
                  Inl e \<Rightarrow> Inl e
                | Inr merged' \<Rightarrow> Inr (py_take target_count merged'))))"

text \<open>\<^verbatim>\<open>search\<close>, started with the log of the calls made to the web search tool
  so far: what the method returns or raises, and the log when it ends.\<close>

record stats =
  local_count :: nat
  google_count :: nat
  total_count :: nat
  sources_local :: nat
  sources_google :: nat

record search_run =
  outcome :: "py_error + pydict list \<times> stats"
  web_log :: "pydict list"

definition search ::
  "world \<Rightarrow> kb \<Rightarrow> pydict \<Rightarrow> int \<Rightarrow> int \<Rightarrow> real \<Rightarrow> pydict list \<Rightarrow> search_run" where
  "search w st product_info local_k google_k min_similarity calls =
     (case search_local w st product_info local_k min_similarity of
        Inl e \<Rightarrow> \<lparr>outcome = Inl e, web_log = calls\<rparr>
      | Inr local_results \<Rightarrow>
          (case (if int (length local_results) < google_k
                 then search_google w product_info google_k calls
                 else (Inr [], calls)) of
             (Inl e, calls') \<Rightarrow> \<lparr>outcome = Inl e, web_log = calls'\<rparr>
           | (Inr google_results, calls') \<Rightarrow>
               (case merge_results w local_results google_results google_k of
                  Inl e \<Rightarrow> \<lparr>outcome = Inl e, web_log = calls'\<rparr>
                | Inr merged_results \<Rightarrow>
                    \<lparr>outcome =
                       Inr (merged_results,
                            \<lparr>local_count = length local_results,
                             google_count = length google_results,
                             total_count = length merged_results,
                             sources_local = length local_results,
                             sources_google =
                               length (filter (\<lambda>r. dict_get r ''source'' PNone = PStr src_google)
                                         merged_results)\<rparr>),
                     web_log = calls'\<rparr>)))"

text \<open>\<^verbatim>\<open>save_to_knowledge_base\<close>: only the candidates tagged as web results are
  forwarded to the batch add.\<close>

definition save_to_knowledge_base :: "world \<Rightarrow> kb \<Rightarrow> pydict list \<Rightarrow> (py_error + nat) \<times> kb" where
  "save_to_knowledge_base w st sups =
     (let new_suppliers = filter (\<lambda>s. dict_get s ''source'' PNone = PStr src_google) sups
      in if new_suppliers = [] then (Inr 0, st) else add_suppliers_batch w st new_suppliers)"




definition titles :: "pydict list \<Rightarrow> pyval list" where
  "titles cs = map (\<lambda>c. dict_get c ''title'' PNone) cs"

definition returned :: "search_run \<Rightarrow> pydict list" where
  "returned r = (case outcome r of Inl e \<Rightarrow> [] | Inr (merged, st) \<Rightarrow> merged)"

section \<open>Concrete worlds, stores and suppliers\<close>

text \<open>
  The inputs at which the theorems below are instantiated. The runtime of these worlds
  computes in exact arithmetic, with ASCII case folding, except that its exponential
  underflows to 0 below \<open>- 104\<close> as the single-precision one does. At the inputs used
  here (titles in ASCII; distances 0, 20 and 1000000; similarities 1, \<open>exp (- 2)\<close>
  compared with 0.1 and 0.5, and 0) it differs from Python, numpy and faiss in nothing
  the statements depend on. The providers: one that embeds every text to the origin of a
  two-dimensional space, one that embeds a text to its length, one that always fails,
  one that fails on the query \<^verbatim>\<open>bluetooth\<close> only.
\<close>

definition underflow_exp :: "real \<Rightarrow> real" where
  "underflow_exp x = (if x < - 104 then 0 else exp x)"

definition demo_world :: world where
  "demo_world =
     \<lparr>embed_query = (\<lambda>t. Inr [0, 0]), google_tool = (\<lambda>p. Inr []), today = ''2025-01-01'',
      disk_write = WriteOk, repr_other = (\<lambda>v. ''?''), str_lower = map lower_char,
      format_2f = fixed2, round_3 = py_round3, l2_distance = l2sq, f32 = (\<lambda>x. x),
      np_exp = underflow_exp, promote = (\<lambda>x. x)\<rparr>"

definition length_world :: world where
  "length_world = demo_world\<lparr>embed_query := (\<lambda>t. Inr [real (length t), 0])\<rparr>"

definition failing_world :: world where
  "failing_world = demo_world\<lparr>embed_query := (\<lambda>t. Inl EmbeddingError)\<rparr>"

definition query_failing_world :: world where
  "query_failing_world =
     demo_world\<lparr>embed_query := (\<lambda>t. if t = ''bluetooth'' then Inl EmbeddingError else Inr [0, 0])\<rparr>"

definition empty_kb :: kb where
  "empty_kb =
     \<lparr>index = \<lparr>dim = 2, vecs = []\<rparr>, suppliers = [], disk_index = None, disk_metadata = None\<rparr>"

definition acme :: pydict where
  "acme = [(''title'', PStr ''Acme''), (''category'', PStr '''')]"

definition acme_no_contact :: pydict where
  "acme_no_contact = [(''title'', PStr ''Acme''), (''contact'', PNone)]"

definition beta :: pydict where
  "beta = [(''title'', PStr ''Beta Ltd'')]"

definition acme_record :: pydict where
  "acme_record =
     [(''company_name'', PStr ''Acme Co''), (''website'', PStr ''https://acme.example''),
      (''cooperation_status'', PStr status_uncontacted)]"

definition one_kb :: kb where
  "one_kb =
     \<lparr>index = \<lparr>dim = 2, vecs = [[0, 0]]\<rparr>, suppliers = [acme_record],
      disk_index = None, disk_metadata = None\<rparr>"

text \<open>Two more providers for the one-record store: one puts the query at squared
  distance 20 from the stored vector, the other at squared distance 1000000.\<close>

definition near_world :: world where
  "near_world = demo_world\<lparr>embed_query := (\<lambda>t. Inr [4, 2])\<rparr>"

definition far_world :: world where
  "far_world = demo_world\<lparr>embed_query := (\<lambda>t. Inr [1000, 0])\<rparr>"

definition headphones :: pydict where
  "headphones = [(key_product_name, PStr ''headphones'')]"

text \<open>A store with two records at the same vector, and a web search tool that
  returns three results, the first with the title of the stored Acme record in another
  case.\<close>

definition beta_record :: pydict where
  "beta_record =
     [(''company_name'', PStr ''Beta Tools''), (''website'', PStr ''https://beta.example''),
      (''cooperation_status'', PStr status_uncontacted)]"

definition two_kb :: kb where
  "two_kb =
     \<lparr>index = \<lparr>dim = 2, vecs = [[0, 0], [0, 0]]\<rparr>, suppliers = [acme_record, beta_record],
      disk_index = None, disk_metadata = None\<rparr>"

definition web_acme :: pydict where
  "web_acme = [(''title'', PStr ''acme co''), (''link'', PStr ''https://acme.example/about'')]"

definition web_gamma :: pydict where
  "web_gamma = [(''title'', PStr ''Gamma Parts'')]"

definition web_delta :: pydict where
  "web_delta = [(''title'', PStr ''Delta Works'')]"

definition web_world :: world where
  "web_world = demo_world\<lparr>google_tool := (\<lambda>p. Inr [web_acme, web_gamma, web_delta])\<rparr>"

section \<open>Properties of the knowledge base\<close>

subsection \<open>Document text\<close>

lemma label_nonempty:
  "label_company \<noteq> []" "label_category \<noteq> []" "label_type \<noteq> []"
  "label_snippet \<noteq> []" "label_reason \<noteq> []"
  by (simp_all add: label_company_def label_category_def label_type_def label_snippet_def
      label_reason_def)

text \<open>Every part starts with its label, so the filter \<^verbatim>\<open>if p\<close> of the source keeps
  all five.\<close>

lemma build_document_content_five_lines:
  "build_document_content w supplier =
     join_lines
       [label_company @ py_str w (dict_get supplier ''title'' (PStr '''')),
        label_category @ py_str w (dict_get supplier ''category'' (PStr '''')),
        label_type @ py_str w (dict_get supplier ''match_type'' (PStr '''')),
        label_snippet @ py_str w (dict_get supplier ''snippet'' (PStr '''')),
        label_reason @ py_str w (dict_get supplier ''reason'' (PStr ''''))]"
  by (simp add: build_document_content_def Let_def label_nonempty)

text \<open>
  C9. The claim: the document text omits the line of every field whose value is empty,
  so a supplier with an empty category contributes no category line. The code at the
  supplier \<^verbatim>\<open>{"title": "Acme", "category": ""}\<close>: the text has five lines, and the
  second is the bare category label; the lines of the three absent fields are there too.
\<close>

theorem build_document_content_empty_category_line:
  "build_document_content w acme =
     label_company @ ''Acme'' @ [CHR 0x0A] @ label_category @ [CHR 0x0A] @ label_type @ [CHR 0x0A]
       @ label_snippet @ [CHR 0x0A] @ label_reason"
  by (simp add: build_document_content_five_lines join_lines_def dict_get_def py_str_def acme_def)

subsection \<open>Adding suppliers\<close>

text \<open>
  C10. When the embedding provider raises on the supplier's document text,
  \<^verbatim>\<open>add_supplier\<close> returns \<^verbatim>\<open>False\<close> (it cannot raise: its result is a plain pair)
  and the whole state, the index and the metadata list in memory and the two files on
  disk, is the one before the call.
\<close>

theorem add_supplier_embedding_failure:
  assumes "embed_query w (build_document_content w supplier) = Inl e"
  shows "add_supplier w st supplier = (False, st)"
  using assms by (simp add: add_supplier_def)

theorem add_supplier_embedding_failure_witness:
  "embed_query failing_world (build_document_content failing_world acme) = Inl EmbeddingError
   \<and> add_supplier failing_world one_kb acme = (False, one_kb)"
  using add_supplier_embedding_failure [of failing_world acme EmbeddingError one_kb]
  by (simp add: failing_world_def)

text \<open>
  C2. The claim: after any sequence of adds the metadata list is as long as the index
  and ordinal \<open>i\<close> of one belongs to ordinal \<open>i\<close> of the other, also when an add fails
  partway. The code at a supplier whose \<^verbatim>\<open>contact\<close> entry is \<^verbatim>\<open>None\<close>:
  \<^verbatim>\<open>add_supplier\<close> has put the vector into the index when \<^verbatim>\<open>_build_metadata\<close>
  raises, so the index holds one vector and the metadata list none; in a batch the
  embedding of the failing item stays in the pending list, so after the batch
  \<^verbatim>\<open>[acme_no_contact, beta]\<close> the index holds two vectors, the metadata list one record,
  and the record at ordinal 0 is Beta's while the vector at ordinal 0 is Acme's.
\<close>

theorem add_contact_none_breaks_lockstep:
  "add_supplier length_world empty_kb acme_no_contact =
     (False, empty_kb\<lparr>index := \<lparr>dim = 2, vecs = [[54, 0]]\<rparr>\<rparr>)
   \<and> fst (add_suppliers_batch length_world empty_kb [acme_no_contact, beta]) = Inr 1
   \<and> vecs (index (snd (add_suppliers_batch length_world empty_kb [acme_no_contact, beta]))) =
       [[54, 0], [58, 0]]
   \<and> map (\<lambda>m. dict_get m ''company_name'' PNone)
        (suppliers (snd (add_suppliers_batch length_world empty_kb [acme_no_contact, beta]))) =
       [PStr ''Beta Ltd'']"
  by (simp add: add_supplier_def add_suppliers_batch_def save_index_def length_world_def
      demo_world_def empty_kb_def index_add_def build_metadata_def dict_get_def acme_no_contact_def
      beta_def build_document_content_five_lines join_lines_def py_str_def label_company_def
      label_category_def label_type_def label_snippet_def label_reason_def)
subsection \<open>Failures of the collaborators\<close>

lemma py_str_disk_write [simp]: "py_str (w\<lparr>disk_write := oc\<rparr>) v = py_str w v"
  by (simp add: py_str_def split: pyval.splits)

lemma build_document_content_disk_write [simp]:
  "build_document_content (w\<lparr>disk_write := oc\<rparr>) s = build_document_content w s"
  by (simp add: build_document_content_def)

lemma build_metadata_disk_write [simp]:
  "build_metadata (w\<lparr>disk_write := oc\<rparr>) s = build_metadata w s"
  by (simp add: build_metadata_def split: pyval.splits)

lemma batch_loop_disk_write [simp]:
  "batch_loop (w\<lparr>disk_write := oc\<rparr>) sups acc = batch_loop w sups acc"
  by (induction w sups acc rule: batch_loop.induct) (simp_all split: sum.splits)

lemma save_index_memory [simp]:
  "index (save_index w st) = index st" "suppliers (save_index w st) = suppliers st"
  by (simp_all add: save_index_def split: write_outcome.splits)

text \<open>
  C8 as the code has it. \<^verbatim>\<open>_save_index\<close> catches the exception of a failed write and
  prints it. So whatever the outcome of the write, \<^verbatim>\<open>add_supplier\<close> and
  \<^verbatim>\<open>add_suppliers_batch\<close> return the value, and leave the index and the metadata list
  in memory, that they return and leave in that world otherwise: the appended entries
  stay (no rollback), and the caller is not told of the failure.
\<close>

theorem add_write_failure_not_reported:
  "fst (add_supplier (w\<lparr>disk_write := oc\<rparr>) st s) = fst (add_supplier w st s)
   \<and> index (snd (add_supplier (w\<lparr>disk_write := oc\<rparr>) st s)) = index (snd (add_supplier w st s))
   \<and> suppliers (snd (add_supplier (w\<lparr>disk_write := oc\<rparr>) st s)) = suppliers (snd (add_supplier w st s))
   \<and> fst (add_suppliers_batch (w\<lparr>disk_write := oc\<rparr>) st ss) = fst (add_suppliers_batch w st ss)
   \<and> index (snd (add_suppliers_batch (w\<lparr>disk_write := oc\<rparr>) st ss)) =
       index (snd (add_suppliers_batch w st ss))
   \<and> suppliers (snd (add_suppliers_batch (w\<lparr>disk_write := oc\<rparr>) st ss)) =
       suppliers (snd (add_suppliers_batch w st ss))"
  by (simp add: add_supplier_def add_suppliers_batch_def Let_def split: sum.splits prod.splits)

text \<open>
  C8 as stated fails: with a write of the index file that fails, \<^verbatim>\<open>add_supplier\<close>
  returns \<^verbatim>\<open>True\<close>, as it does when the write succeeds, although neither file was
  written. (The vector and the record are in memory, as the claim says.)
\<close>

theorem add_supplier_write_failure_counterexample:
  "fst (add_supplier (demo_world\<lparr>disk_write := IndexWriteFails\<rparr>) empty_kb beta) = True
   \<and> fst (add_supplier demo_world empty_kb beta) = True
   \<and> vecs (index (snd (add_supplier (demo_world\<lparr>disk_write := IndexWriteFails\<rparr>) empty_kb beta))) =
       [[0, 0]]
   \<and> length (suppliers (snd (add_supplier (demo_world\<lparr>disk_write := IndexWriteFails\<rparr>) empty_kb beta))) = 1
   \<and> disk_index (snd (add_supplier (demo_world\<lparr>disk_write := IndexWriteFails\<rparr>) empty_kb beta)) = None
   \<and> disk_metadata (snd (add_supplier (demo_world\<lparr>disk_write := IndexWriteFails\<rparr>) empty_kb beta)) = None"
  by (simp add: add_supplier_def save_index_def demo_world_def empty_kb_def index_add_def
      build_metadata_def dict_get_def beta_def)

text \<open>
  C4 as the code has it. Both methods catch the exception of the embedding provider and
  neither raises: when the provider fails on the query, \<^verbatim>\<open>search_suppliers\<close> returns
  the empty list; when it fails on the supplier's document text, \<^verbatim>\<open>add_supplier\<close>
  returns \<^verbatim>\<open>False\<close>. Each holds by itself, whatever the provider does on other texts.
\<close>

theorem embedding_failure_returns:
  "(embed_query w query = Inl e \<longrightarrow> search_suppliers w st query k min_similarity = [])
   \<and> (embed_query w (build_document_content w supplier) = Inl e' \<longrightarrow>
        fst (add_supplier w st supplier) = False)"
  by (simp add: search_suppliers_def search_suppliers_try_def add_supplier_def)

theorem embedding_failure_returns_witness:
  "embed_query query_failing_world ''bluetooth'' = Inl EmbeddingError
   \<and> embed_query query_failing_world (build_document_content query_failing_world acme) = Inr [0, 0]
   \<and> search_suppliers query_failing_world one_kb ''bluetooth'' 5 (1 / 2) = []
   \<and> embed_query failing_world (build_document_content failing_world acme) = Inl EmbeddingError
   \<and> fst (add_supplier failing_world one_kb acme) = False"
proof -
  have q: "embed_query query_failing_world ''bluetooth'' = Inl EmbeddingError"
    by (simp add: query_failing_world_def)
  have d: "embed_query query_failing_world (build_document_content query_failing_world acme) = Inr [0, 0]"
    by (simp add: query_failing_world_def build_document_content_five_lines join_lines_def
        label_company_def)
  have f: "embed_query failing_world (build_document_content failing_world acme) = Inl EmbeddingError"
    by (simp add: failing_world_def)
  from embedding_failure_returns
    [where w = query_failing_world and query = "''bluetooth''" and e = EmbeddingError
       and st = one_kb and k = 5 and min_similarity = "1 / 2"] q
  have s: "search_suppliers query_failing_world one_kb ''bluetooth'' 5 (1 / 2) = []" by blast
  from embedding_failure_returns
    [where w = failing_world and supplier = acme and e' = EmbeddingError and st = one_kb] f
  have a: "fst (add_supplier failing_world one_kb acme) = False" by blast
  from q d s f a show ?thesis by simp
qed

text \<open>
  C4 as stated fails: on a store with one record and a provider that raises,
  \<^verbatim>\<open>search_suppliers\<close> returns the empty list, the value it returns on an empty
  store; the error exists only inside the \<^verbatim>\<open>try\<close> body.
\<close>

theorem search_embedding_failure_counterexample:
  "search_suppliers failing_world one_kb ''bluetooth'' 5 (1 / 2) = []
   \<and> search_suppliers demo_world empty_kb ''bluetooth'' 5 (1 / 2) = []
   \<and> search_suppliers_try failing_world one_kb ''bluetooth'' 5 (1 / 2) = Inl EmbeddingError"
  by (simp add: search_suppliers_def search_suppliers_try_def failing_world_def one_kb_def empty_kb_def)
section \<open>Properties of the similarity search\<close>

subsection \<open>The index's answer\<close>




subsection \<open>The loop over the answer\<close>



subsection \<open>Annotations\<close>

lemma map_of_dict_set: "map_of (dict_set d k v) = (map_of d)(k \<mapsto> v)"
  by (induction d k v rule: dict_set.induct) auto

lemma dict_get_dict_set:
  "dict_get (dict_set d k v) k' dflt = (if k' = k then v else dict_get d k' dflt)"
  by (simp add: dict_get_def map_of_dict_set)

lemma dict_item_dict_set:
  "dict_item (dict_set d k v) k' = (if k' = k then Inr v else dict_item d k')"
  by (simp add: dict_item_def map_of_dict_set)

lemma annotate_fields:
  "dict_get (annotate w stored distance) ''similarity_score'' dflt =
     PFloat (round_3 w (similarity_of w distance))"
  "dict_get (annotate w stored distance) ''distance'' dflt = PFloat (round_3 w distance)"
  "key \<noteq> ''similarity_score'' \<Longrightarrow> key \<noteq> ''distance'' \<Longrightarrow>
     dict_get (annotate w stored distance) key dflt = dict_get stored key dflt"
  by (simp_all add: annotate_def dict_get_dict_set)

lemma annotate_items:
  "dict_item (annotate w stored distance) ''similarity_score'' =
     Inr (PFloat (round_3 w (similarity_of w distance)))"
  "key \<noteq> ''similarity_score'' \<Longrightarrow> key \<noteq> ''distance'' \<Longrightarrow>
     dict_item (annotate w stored distance) key = dict_item stored key"
  by (simp_all add: annotate_def dict_item_dict_set)

subsection \<open>The runtime of the examples\<close>

lemma round_half_even_of_int: "round_half_even (of_int n) = n"
  by (simp add: round_half_even_def Let_def)

lemma py_round3_values: "py_round3 0 = 0" "py_round3 1 = 1"
  using round_half_even_of_int [of 0] round_half_even_of_int [of 1000]
  by (simp_all add: py_round3_def)

lemma underflow_exp_values:
  "underflow_exp 0 = 1" "underflow_exp (- 100000) = 0" "underflow_exp (- 2) = exp (- 2)"
  by (simp_all add: underflow_exp_def)

lemma exp_minus_2: "1 / 10 \<le> exp (- 2 :: real)" "exp (- 2 :: real) < 1 / 2"
proof -
  have e1: "exp (1::real) \<le> 3" by (rule exp_le)
  have "exp (2::real) = exp 1 * exp 1" by (simp add: exp_add [symmetric])
  also have "\<dots> \<le> 3 * 3" using e1 by (intro mult_mono) simp_all
  finally have up: "exp (2::real) \<le> 10" by simp
  have "1 + (2::real) \<le> exp 2" by (rule exp_ge_add_one_self)
  then have lo: "(2::real) < exp 2" by linarith
  have pos: "(0::real) < exp 2" by simp
  have "inverse (10::real) \<le> inverse (exp 2)" by (rule le_imp_inverse_le [OF up pos])
  then show "1 / 10 \<le> exp (- 2 :: real)" by (simp add: exp_minus inverse_eq_divide)
  have "inverse (exp (2::real)) < inverse 2" by (rule less_imp_inverse_less [OF lo]) simp
  then show "exp (- 2 :: real) < 1 / 2" by (simp add: exp_minus inverse_eq_divide)
qed

lemma similarity_examples:
  "similarity_of demo_world 0 = 1"
  "similarity_of near_world 20 = exp (- 2)"
  "similarity_of far_world 1000000 = 0"
  by (simp_all add: similarity_of_def demo_world_def near_world_def far_world_def underflow_exp_values)

lemma index_search_examples:
  "index_search demo_world (index one_kb) [0, 0] 1 = Inr [(0, 0)]"
  "index_search near_world (index one_kb) [4, 2] 1 = Inr [(20, 0)]"
  "index_search far_world (index one_kb) [1000, 0] 1 = Inr [(1000000, 0)]"
  by (simp_all add: index_search_def one_kb_def demo_world_def near_world_def far_world_def l2sq_def)

subsection \<open>What a search returns\<close>




section \<open>Properties of the hybrid search engine\<close>

subsection \<open>The calls to the web search tool\<close>

lemma search_google_result:
  "fst (search_google w product_info k calls) =
     (case google_tool w product_info of
        Inl e \<Rightarrow> Inl e
      | Inr answer \<Rightarrow> Inr (py_take k (map tag_google answer)))"
  "snd (search_google w product_info k calls) = calls @ [product_info]"
  by (simp_all add: search_google_def create_google_search_tool_def split: sum.splits)

text \<open>Relative to what \<^verbatim>\<open>_search_local\<close> returned, the rule of \<^verbatim>\<open>search\<close> is as
  written: one call of the tool when there are fewer than \<^verbatim>\<open>google_k\<close> local results,
  none otherwise, and none when the local search raised.\<close>

lemma web_log_search:
  "web_log (search w st product_info local_k google_k min_similarity calls) =
     calls @
     (case search_local w st product_info local_k min_similarity of
        Inl e \<Rightarrow> []
      | Inr local_results \<Rightarrow> if int (length local_results) < google_k then [product_info] else [])"
proof (cases "search_local w st product_info local_k min_similarity")
  case (Inl e)
  then show ?thesis by (simp add: search_def)
next
  case (Inr local_results)
  show ?thesis
  proof (cases "int (length local_results) < google_k")
    case True
    obtain r calls' where g: "search_google w product_info google_k calls = (r, calls')"
      by (cases "search_google w product_info google_k calls")
    with search_google_result(2) [of w product_info google_k calls]
    have "calls' = calls @ [product_info]" by simp
    with Inr True g show ?thesis by (simp add: search_def split: sum.splits)
  next
    case False
    with Inr show ?thesis by (simp add: search_def split: sum.splits)
  qed
qed

subsection \<open>The local search at the concrete stores\<close>

lemma build_search_query_headphones: "build_search_query headphones = Inr ''headphones''"
  by (simp add: build_search_query_def headphones_def dict_get_def key_product_name_def
      key_product_category_def key_core_specs_def)

lemma search_suppliers_near:
  "search_suppliers near_world one_kb ''headphones'' 5 ms =
     (if ms \<le> exp (- 2) then [annotate near_world acme_record 20] else [])"
proof -
  have e: "embed_query near_world ''headphones'' = Inr [4, 2]" by (simp add: near_world_def)
  have k: "min 5 (int (length (suppliers one_kb))) = 1" "suppliers one_kb = [acme_record]"
    by (simp_all add: one_kb_def)
  have p: "promote near_world ms = ms" by (simp add: near_world_def demo_world_def)
  show ?thesis
    by (simp add: search_suppliers_def search_suppliers_try_def e k index_search_examples
        py_list_item_def similarity_examples p)
qed

lemma search_local_near: "search_local near_world one_kb headphones 5 (1 / 10) = Inr []"
proof -
  have "search_suppliers near_world one_kb ''headphones'' 5 (1 / 2) = []"
    using exp_minus_2(2) by (simp add: search_suppliers_near)
  then show ?thesis by (simp add: search_local_def build_search_query_headphones)
qed

text \<open>
  C3. The claim: the local results are those of the similarity search called with the
  caller's \<^verbatim>\<open>(query, local_k, min_similarity)\<close>, with no further threshold. The code
  at a store whose one record lies at squared distance 20 from the query (similarity
  \<open>exp (- 2)\<close>, about 0.135) and the caller's \<^verbatim>\<open>min_similarity = 0.1\<close>:
  \<^verbatim>\<open>search_suppliers\<close> with the caller's threshold returns the record, but
  \<^verbatim>\<open>_search_local\<close> calls it without the threshold, the default 0.5 drops the record,
  the local results are empty and the web search is invoked.
\<close>

theorem search_local_hidden_threshold:
  "search_suppliers near_world one_kb ''headphones'' 5 (1 / 10) = [annotate near_world acme_record 20]
   \<and> search_local near_world one_kb headphones 5 (1 / 10) = Inr []
   \<and> web_log (search near_world one_kb headphones 5 3 (1 / 10) []) = [headphones]"
proof -
  have a: "search_suppliers near_world one_kb ''headphones'' 5 (1 / 10) =
      [annotate near_world acme_record 20]"
    using exp_minus_2(1) by (simp add: search_suppliers_near)
  have d: "web_log (search near_world one_kb headphones 5 3 (1 / 10) []) = [headphones]"
    by (simp add: web_log_search search_local_near)
  from a search_local_near d show ?thesis by simp
qed


subsection \<open>The merge\<close>










lemma py_take_length: "0 \<le> k \<Longrightarrow> int (length (py_take k xs)) \<le> k"
  by (simp add: py_take_def)



lemma search_Inr:
  assumes "outcome (search w st product_info local_k google_k min_similarity calls) = Inr (merged, stats)"
  shows "\<exists>local_results google_results.
           search_local w st product_info local_k min_similarity = Inr local_results
           \<and> (if int (length local_results) < google_k
               then fst (search_google w product_info google_k calls) = Inr google_results
               else google_results = [])
           \<and> merge_results w local_results google_results google_k = Inr merged
           \<and> local_count stats = length local_results
           \<and> google_count stats = length google_results
           \<and> total_count stats = length merged"
  using assms by (auto simp: search_def split: sum.splits if_splits prod.splits)
subsection \<open>The concrete stores, evaluated\<close>

lemma lower_examples:
  "map lower_char ''Acme Co'' = ''acme co''"
  "map lower_char ''acme co'' = ''acme co''"
  "map lower_char ''Beta Tools'' = ''beta tools''"
  "map lower_char ''Gamma Parts'' = ''gamma parts''"
  "map lower_char ''Delta Works'' = ''delta works''"
  by code_simp+

lemma web_world_runtime:
  "str_lower web_world = map lower_char"
  "round_3 web_world = py_round3"
  "promote web_world x = x"
  "embed_query web_world t = Inr [0, 0]"
  "google_tool web_world p = Inr [web_acme, web_gamma, web_delta]"
  "similarity_of web_world 0 = 1"
  by (simp_all add: web_world_def demo_world_def similarity_of_def underflow_exp_values)

lemma py_lower_examples:
  "py_lower web_world (PStr ''Acme Co'') = Inr ''acme co''"
  "py_lower web_world (PStr ''acme co'') = Inr ''acme co''"
  "py_lower web_world (PStr ''Beta Tools'') = Inr ''beta tools''"
  "py_lower web_world (PStr ''Gamma Parts'') = Inr ''gamma parts''"
  "py_lower web_world (PStr ''Delta Works'') = Inr ''delta works''"
  by (simp_all add: web_world_runtime lower_examples del: list.map)

lemma index_search_web:
  "index_search web_world (index one_kb) [0, 0] 1 = Inr [(0, 0)]"
  "index_search web_world (index two_kb) [0, 0] 2 = Inr [(0, 0), (0, 1)]"
  by (simp_all add: index_search_def one_kb_def two_kb_def web_world_def demo_world_def l2sq_def)

lemma search_suppliers_web:
  "search_suppliers web_world one_kb ''headphones'' 5 (1 / 2) = [annotate web_world acme_record 0]"
  "search_suppliers web_world two_kb ''headphones'' 5 (1 / 2) =
     [annotate web_world acme_record 0, annotate web_world beta_record 0]"
proof -
  have k: "min 5 (int (length (suppliers one_kb))) = 1" "suppliers one_kb = [acme_record]"
    "min 5 (int (length (suppliers two_kb))) = 2" "suppliers two_kb = [acme_record, beta_record]"
    by (simp_all add: one_kb_def two_kb_def)
  show "search_suppliers web_world one_kb ''headphones'' 5 (1 / 2) = [annotate web_world acme_record 0]"
    by (simp add: search_suppliers_def search_suppliers_try_def web_world_runtime k index_search_web
        py_list_item_def)
  show "search_suppliers web_world two_kb ''headphones'' 5 (1 / 2) =
     [annotate web_world acme_record 0, annotate web_world beta_record 0]"
    by (simp add: search_suppliers_def search_suppliers_try_def web_world_runtime k index_search_web
        py_list_item_def)
qed

lemma record_items:
  "dict_item acme_record ''company_name'' = Inr (PStr ''Acme Co'')"
  "dict_item acme_record ''cooperation_status'' = Inr (PStr status_uncontacted)"
  "dict_item beta_record ''company_name'' = Inr (PStr ''Beta Tools'')"
  "dict_item beta_record ''cooperation_status'' = Inr (PStr status_uncontacted)"
  by (simp_all add: acme_record_def beta_record_def dict_item_def)

lemma print_local_match_examples:
  "print_local_match web_world (annotate web_world acme_record 0) = Inr ()"
  "print_local_match web_world (annotate web_world beta_record 0) = Inr ()"
  by (simp_all add: print_local_match_def annotate_items record_items)

lemma search_local_web:
  "search_local web_world one_kb headphones 5 (1 / 2) = Inr [annotate web_world acme_record 0]"
  "search_local web_world two_kb headphones 5 (1 / 2) =
     Inr [annotate web_world acme_record 0, annotate web_world beta_record 0]"
  by (simp_all add: search_local_def build_search_query_headphones search_suppliers_web annotate_fields
      web_world_runtime py_round3_values print_local_match_examples)

lemma local_candidate_examples:
  "\<exists>c. local_candidate web_world (annotate web_world acme_record 0) = Inr c
       \<and> dict_item c ''title'' = Inr (PStr ''Acme Co'') \<and> dict_get c ''title'' dflt = PStr ''Acme Co''"
  "\<exists>c. local_candidate web_world (annotate web_world beta_record 0) = Inr c
       \<and> dict_item c ''title'' = Inr (PStr ''Beta Tools'') \<and> dict_get c ''title'' dflt = PStr ''Beta Tools''"
  apply (simp_all add: local_candidate_def annotate_fields)
  apply (simp_all add: dict_item_def dict_get_def acme_record_def beta_record_def)
  done

lemma tagged_titles:
  "dict_get (tag_google web_acme) ''title'' dflt = PStr ''acme co''"
  "dict_get (tag_google web_gamma) ''title'' dflt = PStr ''Gamma Parts''"
  "dict_get (tag_google web_delta) ''title'' dflt = PStr ''Delta Works''"
  by (simp_all add: tag_google_def dict_get_dict_set web_acme_def web_gamma_def web_delta_def dict_get_def)

lemma returned_outcome: "outcome r = Inr (merged, stats) \<Longrightarrow> returned r = merged"
  by (simp add: returned_def)

lemma returned_nonempty:
  assumes "returned r \<noteq> []"
  shows "\<exists>stats. outcome r = Inr (returned r, stats)"
  using assms by (auto simp: returned_def split: sum.splits)

lemma titles_web_run:
  "titles (returned (search web_world one_kb headphones 5 3 (1 / 2) [])) =
     [PStr ''Acme Co'', PStr ''Gamma Parts'', PStr ''Delta Works'']"
proof -
  from local_candidate_examples(1) [of "PStr ''''"] local_candidate_examples(1) [of PNone]
  obtain c where c: "local_candidate web_world (annotate web_world acme_record 0) = Inr c"
    "dict_item c ''title'' = Inr (PStr ''Acme Co'')" "dict_get c ''title'' PNone = PStr ''Acme Co''"
    by auto
  have g: "search_google web_world headphones 3 [] =
      (Inr [tag_google web_acme, tag_google web_gamma, tag_google web_delta], [headphones])"
    by (simp add: search_google_def create_google_search_tool_def web_world_runtime py_take_def)
  have m: "merge_results web_world [annotate web_world acme_record 0]
             [tag_google web_acme, tag_google web_gamma, tag_google web_delta] 3
             = Inr [c, tag_google web_gamma, tag_google web_delta]"
    by (simp add: merge_results_def c tagged_titles py_lower_examples py_take_def del: py_lower.simps)
  show ?thesis
    by (simp add: search_def search_local_web g m returned_def titles_def c tagged_titles)
qed

subsection \<open>What a hybrid search returns\<close>





text \<open>
  C7. For counts that are not negative, the list \<^verbatim>\<open>search\<close> returns has at most
  \<^verbatim>\<open>local_k + google_k\<close> entries (it has at most \<^verbatim>\<open>google_k\<close>).
\<close>

theorem search_result_length:
  assumes "outcome (search w st product_info local_k google_k min_similarity calls) = Inr (merged, stats)"
    and "0 \<le> local_k" and "0 \<le> google_k"
  shows "int (length merged) \<le> local_k + google_k"
proof -
  from search_Inr [OF assms(1)] obtain local_results fetched where
    "merge_results w local_results fetched google_k = Inr merged" by blast
  then obtain out where "merged = py_take google_k out"
    by (auto simp: merge_results_def split: sum.splits)
  with py_take_length [OF assms(3)] have "int (length merged) \<le> google_k" by simp
  with assms(2) show ?thesis by simp
qed

theorem search_result_length_witness:
  "(0::int) \<le> 5 \<and> (0::int) \<le> 3
   \<and> titles (returned (search web_world one_kb headphones 5 3 (1 / 2) [])) =
       [PStr ''Acme Co'', PStr ''Gamma Parts'', PStr ''Delta Works'']
   \<and> int (length (returned (search web_world one_kb headphones 5 3 (1 / 2) []))) \<le> 5 + 3"
proof -
  let ?r = "search web_world one_kb headphones 5 3 (1 / 2) []"
  have t: "titles (returned ?r) = [PStr ''Acme Co'', PStr ''Gamma Parts'', PStr ''Delta Works'']"
    by (rule titles_web_run)
  then have "returned ?r \<noteq> []" by (auto simp: titles_def)
  from returned_nonempty [OF this] obtain stats where o: "outcome ?r = Inr (returned ?r, stats)" ..
  from search_result_length [OF o] have "int (length (returned ?r)) \<le> 5 + 3" by simp
  with t show ?thesis by simp
qed

end
